theory Spec2Isabelle
  imports Main
begin

section \<open>AI Study Buddy: the page script of app.py\<close>

text \<open>
  app.py is one Streamlit script. Each run of the script fetches the model catalog, draws
  the sidebar and the input column and, when the button was pressed, handles one request.
  The embedding follows the script top to bottom. Everything the script does to the outside
  (notices it prints, models it instantiates, the generation call) is recorded, in order,
  in a list of events that each function returns.

  The provider library is not part of the repository, so its three entry points are fields
  of a record the script is run against. An exception is represented by the text that
  \<^verbatim>\<open>str(e)\<close> gives, because the script only ever formats it into a message.

  A Python \<^verbatim>\<open>str\<close> is modelled as a list of characters, one list element per
  code point, so \<^verbatim>\<open>len\<close> is \<open>length\<close> and the slice
  \<^verbatim>\<open>s[:n]\<close> is \<open>take n\<close>. Nothing below depends on which characters exist.
\<close>

subsection \<open>Data\<close>

type_synonym exn = string

text \<open>A record of the provider's listing: the two attributes the script reads.\<close>

record model_info =
  name :: string
  supported_generation_methods :: "string list"

text \<open>The dictionary appended to \<^verbatim>\<open>valid_models\<close> (lines 29 to 32).\<close>

record descriptor =
  full_name :: string
  display_name :: string

text \<open>The three options of the radio button (lines 41 and 42).\<close>

datatype action = Explain_Concept | Generate_Quiz | Make_Flashcards

text \<open>An element of \<^verbatim>\<open>final_input\<close>: a string or the opened image.\<close>

datatype 'img part = Text string | Img 'img

text \<open>
  The provider: \<^verbatim>\<open>genai.list_models()\<close> together with the iteration over its
  result, the constructor \<^verbatim>\<open>genai.GenerativeModel(name)\<close> and
  \<^verbatim>\<open>model.generate_content(parts)\<close>. Each may raise (\<open>Inl\<close>). A response is
  what reading \<^verbatim>\<open>response.text\<close> gives, which is a property and may raise too.
\<close>

type_synonym response = "exn + string"

record ('img, 'm) provider =
  list_models :: "exn + model_info list"
  GenerativeModel :: "string \<Rightarrow> exn + 'm"
  generate_content :: "'m \<Rightarrow> 'img part list \<Rightarrow> exn + response"

datatype ('img, 'm) event =
    List_Models_Call
  | Instantiate_Call string
  | Generate_Call 'm "'img part list"
  | St_Error string
  | St_Warning string
  | St_Info string
  | Sidebar_Success string
  | St_Subheader string
  | St_Markdown string

subsection \<open>String replacement\<close>

text \<open>
  \<^verbatim>\<open>s.replace(old, new)\<close>: every occurrence of \<open>old\<close>, found from the left and
  not overlapping, is replaced. With an empty \<open>old\<close> Python puts \<open>new\<close> before every
  character and at the end.
\<close>

function str_replace :: "string \<Rightarrow> string \<Rightarrow> string \<Rightarrow> string" where
  "str_replace old new s =
     (if old = [] then new @ concat (map (\<lambda>c. c # new) s)
      else if s = [] then []
      else if take (length old) s = old then new @ str_replace old new (drop (length old) s)
      else hd s # str_replace old new (tl s))"
  by pat_completeness auto
termination
  by (relation "measure (\<lambda>(old, new, s). length s)") (auto simp: neq_Nil_conv)

declare str_replace.simps [simp del]

subsection \<open>The model catalog fetcher (lines 19 to 36)\<close>

text \<open>The loop of lines 25 to 32, with \<^verbatim>\<open>valid_models\<close> as accumulator.\<close>

fun collect_valid :: "model_info list \<Rightarrow> descriptor list \<Rightarrow> descriptor list" where
  "collect_valid [] valid_models = valid_models"
| "collect_valid (model # models) valid_models =
     (if ''generateContent'' \<in> set (supported_generation_methods model)
      then collect_valid models
             (valid_models @
               [\<lparr>full_name = name model,
                 display_name = str_replace ''models/'' '''' (name model)\<rparr>])
      else collect_valid models valid_models)"

text \<open>
  An exception anywhere in the \<^verbatim>\<open>try\<close> block discards what was collected: the
  handler prints the notice and returns the empty list. The function is run with an empty
  cache, so the decorator of line 19 changes nothing in a single run.
\<close>

definition get_available_models ::
  "('img, 'm) provider \<Rightarrow> ('img, 'm) event list \<times> descriptor list" where
  "get_available_models p =
     (case list_models p of
        Inr models \<Rightarrow> ([List_Models_Call], collect_valid models [])
      | Inl e \<Rightarrow> ([List_Models_Call, St_Error (''Error fetching models: '' @ e)], []))"

subsection \<open>The sidebar (lines 39 to 58)\<close>

text \<open>
  \<open>picked\<close> is the option the select box returns. The select box is only drawn when the
  catalog is not empty; otherwise the script prints a warning and uses a fixed name.
\<close>

definition sidebar :: "descriptor list \<Rightarrow> string \<Rightarrow> ('img, 'm) event list \<times> string" where
  "sidebar available_models picked =
     (if available_models \<noteq> [] then ([], picked)
      else ([St_Warning ''No models found. Using default model name.''], ''gemini-pro''))"

subsection \<open>The request dispatcher (lines 73 to 130)\<close>

text \<open>
  Lines 82 to 85: the first entry whose display name is the selection. \<^verbatim>\<open>next\<close>
  on an exhausted generator raises \<^verbatim>\<open>StopIteration\<close>, whose text is empty.
\<close>

fun next_full_name :: "descriptor list \<Rightarrow> string \<Rightarrow> exn + string" where
  "next_full_name [] selected_model = Inl ''''"
| "next_full_name (m # ms) selected_model =
     (if display_name m = selected_model then Inr (full_name m)
      else next_full_name ms selected_model)"

definition model_names_to_try :: "string list" where
  "model_names_to_try =
     [''gemini-1.5-flash'', ''gemini-1.5-pro'', ''gemini-1.0-pro'', ''gemini-pro'']"

text \<open>
  The loop of lines 96 to 102. A candidate whose constructor raises is skipped, whatever
  was raised; the first one that is built is announced in the sidebar and ends the loop.
  \<open>None\<close> is \<^verbatim>\<open>model is None\<close> after the loop.
\<close>

fun try_models ::
  "('img, 'm) provider \<Rightarrow> string list \<Rightarrow> ('img, 'm) event list \<times> 'm option" where
  "try_models p [] = ([], None)"
| "try_models p (model_name # rest) =
     (case GenerativeModel p model_name of
        Inr model \<Rightarrow>
          ([Instantiate_Call model_name, Sidebar_Success (''Using model: '' @ model_name)],
           Some model)
      | Inl e \<Rightarrow>
          (case try_models p rest of
             (evs, r) \<Rightarrow> (Instantiate_Call model_name # evs, r)))"

text \<open>
  How lines 80 to 106 end: with a model, with an exception that the handler of line 128
  receives, or with \<^verbatim>\<open>st.stop()\<close>, which ends the run of the script and is not
  caught by \<^verbatim>\<open>except Exception\<close>.
\<close>

datatype 'm selection = Model 'm | Raised exn | Stopped

definition select_model ::
  "('img, 'm) provider \<Rightarrow> descriptor list \<Rightarrow> string \<Rightarrow> ('img, 'm) event list \<times> 'm selection" where
  "select_model p available_models selected_model =
     (if available_models \<noteq> [] then
        (case next_full_name available_models selected_model of
           Inl e \<Rightarrow> ([], Raised e)
         | Inr selected_full \<Rightarrow>
             (case GenerativeModel p selected_full of
                Inl e \<Rightarrow> ([Instantiate_Call selected_full], Raised e)
              | Inr model \<Rightarrow> ([Instantiate_Call selected_full], Model model)))
      else
        (case try_models p model_names_to_try of
           (evs, None) \<Rightarrow>
             (evs @ [St_Error
                ''Could not find any working model. Please check your API key and permissions.''],
              Stopped)
         | (evs, Some model) \<Rightarrow> (evs, Model model)))"

text \<open>
  The dictionary of lines 108 to 112. Its keys are the three options of the radio button,
  so \<^verbatim>\<open>prompts[choice]\<close> always finds an entry.
\<close>

fun prompts :: "action \<Rightarrow> string" where
  "prompts Explain_Concept =
     ''Summarize this content into easy bullet points and explain complex terms simply.''"
| "prompts Generate_Quiz =
     ''Create 5 multiple choice questions with answers based on this content.''"
| "prompts Make_Flashcards =
     ''Create 5 Question & Answer pairs from this content.''"

text \<open>
  Lines 114 to 120, one definition per statement. A string is true when it is not empty;
  an uploaded file is true whenever there is one, and \<open>Some img\<close> is the image opened from
  it at line 69. A file that cannot be opened ends the script there, before the button is
  read, so it never becomes a request.
\<close>

definition with_text :: "string \<Rightarrow> 'img part list \<Rightarrow> 'img part list" where
  "with_text text_input final_input =
     (if text_input \<noteq> [] then
        final_input @
          [Text (if length text_input > 10000 then take 10000 text_input else text_input)]
      else final_input)"

definition with_image :: "'img option \<Rightarrow> 'img part list \<Rightarrow> 'img part list" where
  "with_image image_input final_input =
     (case image_input of Some img \<Rightarrow> final_input @ [Img img] | None \<Rightarrow> final_input)"

definition build_final_input :: "action \<Rightarrow> string \<Rightarrow> 'img option \<Rightarrow> 'img part list" where
  "build_final_input choice text_input image_input =
     with_image image_input (with_text text_input [Text (prompts choice)])"

text \<open>The handler of lines 128 to 130.\<close>

definition on_exception :: "exn \<Rightarrow> ('img, 'm) event list" where
  "on_exception e =
     [St_Error (''Error: '' @ e),
      St_Info ''Try selecting a different model from the sidebar dropdown.'']"

text \<open>The body of the \<^verbatim>\<open>try\<close> block with its handler (lines 78 to 130).\<close>

definition processing ::
  "('img, 'm) provider \<Rightarrow> action \<Rightarrow> descriptor list \<Rightarrow> string \<Rightarrow> string \<Rightarrow> 'img option
     \<Rightarrow> ('img, 'm) event list" where
  "processing p choice available_models selected_model text_input image_input =
     (case select_model p available_models selected_model of
        (evs, Stopped) \<Rightarrow> evs
      | (evs, Raised e) \<Rightarrow> evs @ on_exception e
      | (evs, Model model) \<Rightarrow>
          (let final_input = build_final_input choice text_input image_input in
           case generate_content p model final_input of
             Inl e \<Rightarrow> evs @ [Generate_Call model final_input] @ on_exception e
           | Inr response \<Rightarrow>
               (case response of
                  Inl e \<Rightarrow>
                    evs @ [Generate_Call model final_input, St_Subheader ''Result'']
                      @ on_exception e
                | Inr txt \<Rightarrow>
                    evs @ [Generate_Call model final_input, St_Subheader ''Result'',
                           St_Markdown txt])))"

text \<open>Lines 73 to 76: nothing happens unless the button was pressed.\<close>

definition main_logic ::
  "('img, 'm) provider \<Rightarrow> action \<Rightarrow> descriptor list \<Rightarrow> string \<Rightarrow> string \<Rightarrow> 'img option
     \<Rightarrow> bool \<Rightarrow> ('img, 'm) event list" where
  "main_logic p choice available_models selected_model text_input image_input button =
     (if button then
        (if text_input = [] \<and> image_input = None
         then [St_Error ''Please provide text or an image first.'']
         else processing p choice available_models selected_model text_input image_input)
      else [])"

text \<open>What the user did on the page before the run.\<close>

record 'img user_input =
  choice :: action
  picked :: string
  text_input :: string
  image_input :: "'img option"
  button :: bool

text \<open>One run of the whole script.\<close>

definition app :: "('img, 'm) provider \<Rightarrow> 'img user_input \<Rightarrow> ('img, 'm) event list" where
  "app p u =
     (case get_available_models p of
        (evs1, available_models) \<Rightarrow>
          (case sidebar available_models (picked u) of
             (evs2, selected_model) \<Rightarrow>
               evs1 @ evs2 @
               main_logic p (choice u) available_models selected_model
                 (text_input u) (image_input u) (button u)))"

subsection \<open>Reading a list of events\<close>

fun generate_calls :: "('img, 'm) event list \<Rightarrow> ('m \<times> 'img part list) list" where
  "generate_calls [] = []"
| "generate_calls (Generate_Call m parts # evs) = (m, parts) # generate_calls evs"
| "generate_calls (_ # evs) = generate_calls evs"

fun attempts :: "('img, 'm) event list \<Rightarrow> string list" where
  "attempts [] = []"
| "attempts (Instantiate_Call n # evs) = n # attempts evs"
| "attempts (_ # evs) = attempts evs"

fun announced :: "('img, 'm) event list \<Rightarrow> string list" where
  "announced [] = []"
| "announced (Sidebar_Success s # evs) = s # announced evs"
| "announced (_ # evs) = announced evs"

fun errors :: "('img, 'm) event list \<Rightarrow> string list" where
  "errors [] = []"
| "errors (St_Error s # evs) = s # errors evs"
| "errors (_ # evs) = errors evs"

fun rendered :: "('img, 'm) event list \<Rightarrow> string list" where
  "rendered [] = []"
| "rendered (St_Markdown s # evs) = s # rendered evs"
| "rendered (_ # evs) = rendered evs"

fun headings :: "('img, 'm) event list \<Rightarrow> string list" where
  "headings [] = []"
| "headings (St_Subheader s # evs) = s # headings evs"
| "headings (_ # evs) = headings evs"

subsection \<open>Sample providers\<close>

text \<open>
  Concrete providers on which the script is evaluated. A model handle is the name it was
  built from, and an image is a number.
\<close>

definition sample_listing :: "model_info list" where
  "sample_listing =
     [\<lparr>name = ''models/embedding-001'', supported_generation_methods = [''embedContent'']\<rparr>,
      \<lparr>name = ''models/gemini-pro'',
        supported_generation_methods = [''generateContent'', ''countTokens'']\<rparr>,
      \<lparr>name = ''gemini-pro'', supported_generation_methods = [''generateContent'']\<rparr>]"

definition working_provider :: "(nat, string) provider" where
  "working_provider =
     \<lparr>list_models = Inr sample_listing,
      GenerativeModel = (\<lambda>n. Inr n),
      generate_content = (\<lambda>m parts. Inr (Inr ''* Plants store light as sugar.''))\<rparr>"

definition listing_down_provider :: "(nat, string) provider" where
  "listing_down_provider =
     \<lparr>list_models = Inl ''503 unavailable'',
      GenerativeModel =
        (\<lambda>n. if n = ''gemini-1.5-flash'' then Inl ''404 model not found'' else Inr n),
      generate_content = (\<lambda>m parts. Inr (Inr ''* Plants store light as sugar.''))\<rparr>"

definition no_model_provider :: "(nat, string) provider" where
  "no_model_provider =
     \<lparr>list_models = Inl ''503 unavailable'',
      GenerativeModel = (\<lambda>n. Inl ''403 permission denied''),
      generate_content = (\<lambda>m parts. Inl ''no model'')\<rparr>"

definition refusing_provider :: "(nat, string) provider" where
  "refusing_provider =
     \<lparr>list_models = Inr sample_listing,
      GenerativeModel = (\<lambda>n. Inl ''403 permission denied''),
      generate_content = (\<lambda>m parts. Inl ''no model'')\<rparr>"

definition quota_provider :: "(nat, string) provider" where
  "quota_provider =
     \<lparr>list_models = Inr sample_listing,
      GenerativeModel = (\<lambda>n. Inr n),
      generate_content = (\<lambda>m parts. Inl ''429 quota exceeded'')\<rparr>"

definition photosynthesis :: string where
  "photosynthesis = ''Photosynthesis converts light into chemical energy''"

section \<open>Properties\<close>

subsection \<open>Events of a concatenation\<close>

lemma generate_calls_append:
  "generate_calls (xs @ ys) = generate_calls xs @ generate_calls ys"
  by (induction xs rule: generate_calls.induct) simp_all

lemma attempts_append: "attempts (xs @ ys) = attempts xs @ attempts ys"
  by (induction xs rule: attempts.induct) simp_all

lemma announced_append: "announced (xs @ ys) = announced xs @ announced ys"
  by (induction xs rule: announced.induct) simp_all

lemma errors_append: "errors (xs @ ys) = errors xs @ errors ys"
  by (induction xs rule: errors.induct) simp_all

lemma rendered_append: "rendered (xs @ ys) = rendered xs @ rendered ys"
  by (induction xs rule: rendered.induct) simp_all

lemma headings_append: "headings (xs @ ys) = headings xs @ headings ys"
  by (induction xs rule: headings.induct) simp_all

lemmas events_append =
  generate_calls_append attempts_append announced_append errors_append rendered_append
  headings_append

text \<open>The definitions a run on a sample provider unfolds.\<close>

lemmas run_defs =
  app_def get_available_models_def sidebar_def main_logic_def processing_def select_model_def
  model_names_to_try_def build_final_input_def with_text_def with_image_def on_exception_def
  sample_listing_def str_replace.simps

subsection \<open>The catalog\<close>

text \<open>The loop appends to the accumulator what a filter followed by a map gives.\<close>

lemma collect_valid_acc:
  "collect_valid models acc =
     acc @ map (\<lambda>m. \<lparr>full_name = name m, display_name = str_replace ''models/'' '''' (name m)\<rparr>)
            (filter (\<lambda>m. ''generateContent'' \<in> set (supported_generation_methods m)) models)"
  by (induction models arbitrary: acc) simp_all

lemma str_replace_prefix_example:
  "str_replace ''models/'' '''' ''models/gemini-1.5-flash'' = ''gemini-1.5-flash''"
  by (simp add: str_replace.simps)

lemma get_available_models_quiet:
  "generate_calls (fst (get_available_models p)) = []
   \<and> attempts (fst (get_available_models p)) = []
   \<and> announced (fst (get_available_models p)) = []
   \<and> rendered (fst (get_available_models p)) = []"
  by (simp add: get_available_models_def split: sum.splits)

subsection \<open>The fallback loop\<close>

text \<open>
  The loop tries the names in order, as long as the constructor raises, and then the
  first name for which it does not, if there is one.
\<close>

lemma try_models_attempts:
  "attempts (fst (try_models p ns)) =
     takeWhile (\<lambda>n. isl (GenerativeModel p n)) ns @
     take 1 (dropWhile (\<lambda>n. isl (GenerativeModel p n)) ns)"
  by (induction ns) (auto split: sum.splits prod.splits)

lemma try_models_announced:
  "announced (fst (try_models p ns)) =
     map (\<lambda>n. ''Using model: '' @ n) (take 1 (dropWhile (\<lambda>n. isl (GenerativeModel p n)) ns))"
  by (induction ns) (auto split: sum.splits prod.splits)

lemma try_models_quiet:
  "generate_calls (fst (try_models p ns)) = [] \<and> rendered (fst (try_models p ns)) = []
   \<and> errors (fst (try_models p ns)) = [] \<and> headings (fst (try_models p ns)) = []"
  by (induction ns) (auto split: sum.splits prod.splits)

lemma try_models_all_fail:
  "\<forall>n \<in> set ns. isl (GenerativeModel p n) \<Longrightarrow> try_models p ns = (map Instantiate_Call ns, None)"
  by (induction ns) (auto split: sum.splits prod.splits)

subsection \<open>Choosing the model\<close>

lemma select_model_quiet:
  "generate_calls (fst (select_model p av s)) = [] \<and> rendered (fst (select_model p av s)) = []
   \<and> headings (fst (select_model p av s)) = []"
  using try_models_quiet [of p model_names_to_try]
  by (auto simp: select_model_def events_append split: sum.splits prod.splits option.splits)

lemma select_model_no_error:
  "select_model p av s = (evs, Model m) \<Longrightarrow> errors evs = []"
  using try_models_quiet [of p model_names_to_try]
  by (auto simp: select_model_def split: sum.splits prod.splits option.splits if_splits)

lemma select_model_errors:
  "errors (fst (select_model p av s)) = []
   \<or> errors (fst (select_model p av s)) =
       [''Could not find any working model. Please check your API key and permissions.'']"
  using try_models_quiet [of p model_names_to_try]
  by (auto simp: select_model_def events_append split: sum.splits prod.splits option.splits)

lemma select_model_fallback_attempts:
  "attempts (fst (select_model p [] s)) = attempts (fst (try_models p model_names_to_try))
   \<and> announced (fst (select_model p [] s)) = announced (fst (try_models p model_names_to_try))"
  by (auto simp: select_model_def events_append split: prod.splits option.splits)

text \<open>The generator expression of lines 82 to 85 is a search for the first match.\<close>

lemma next_full_name_find:
  "next_full_name av s =
     (case find (\<lambda>m. display_name m = s) av of None \<Rightarrow> Inl '''' | Some m \<Rightarrow> Inr (full_name m))"
  by (induction av) simp_all

subsection \<open>The payload\<close>

text \<open>
  Slicing to 10000 characters leaves a shorter string as it is, so the conditional of
  line 117 is \<open>take 10000\<close>.
\<close>

lemma build_final_input_eq:
  "build_final_input c t i =
     Text (prompts c) # (if t = [] then [] else [Text (take 10000 t)])
       @ (case i of None \<Rightarrow> [] | Some img \<Rightarrow> [Img img])"
  by (simp add: build_final_input_def with_text_def with_image_def split: option.splits)

lemma prompts_short: "length (prompts c) \<le> 10000"
  by (cases c) simp_all

subsection \<open>The events of a handled request\<close>

lemma processing_generate_calls:
  "generate_calls (processing p c av s t i) =
     (case snd (select_model p av s) of
        Model m \<Rightarrow> [(m, build_final_input c t i)]
      | _ \<Rightarrow> [])"
  using select_model_quiet [of p av s]
  by (auto simp: processing_def events_append on_exception_def Let_def
           split: prod.splits selection.splits sum.splits)

lemma processing_attempts:
  "attempts (processing p c av s t i) = attempts (fst (select_model p av s))"
  by (auto simp: processing_def events_append on_exception_def Let_def
           split: prod.splits selection.splits sum.splits)

lemma processing_announced:
  "announced (processing p c av s t i) = announced (fst (select_model p av s))"
  by (auto simp: processing_def events_append on_exception_def Let_def
           split: prod.splits selection.splits sum.splits)

lemma processing_not_rejected:
  "''Please provide text or an image first.'' \<notin> set (errors (processing p c av s t i))"
  using select_model_errors [of p av s]
  by (auto simp: processing_def events_append on_exception_def Let_def
           split: prod.splits selection.splits sum.splits)

section \<open>The claims\<close>

subsection \<open>C1: a request without text and image\<close>

text \<open>
  Claim C1. When the text is empty and no image was uploaded, pressing the button prints
  the inline error and nothing else: the handler of the request instantiates no model and
  issues no generation call. In a run of the whole script the only other error notice is
  the one the catalog fetcher may have printed before.
\<close>

theorem missing_input_rejected:
  "main_logic p c av s [] None True = [St_Error ''Please provide text or an image first.'']
   \<and> generate_calls (app p (u\<lparr>text_input := [], image_input := None, button := True\<rparr>)) = []
   \<and> attempts (app p (u\<lparr>text_input := [], image_input := None, button := True\<rparr>)) = []
   \<and> errors (app p (u\<lparr>text_input := [], image_input := None, button := True\<rparr>))
       = errors (fst (get_available_models p)) @ [''Please provide text or an image first.'']"
proof -
  have m: "main_logic p c av s [] None True = [St_Error ''Please provide text or an image first.'']"
    for c av s
    by (simp add: main_logic_def)
  show ?thesis
    using get_available_models_quiet [of p]
    by (cases "get_available_models p")
       (auto simp: m app_def events_append sidebar_def split: prod.splits)
qed

subsection \<open>C2: truncation of a long text\<close>

text \<open>
  Claim C2. For a text of more than 10000 characters the payload is the instruction, the
  first 10000 characters of the text and the image if there is one; a request issues no
  generation call or exactly one, with this payload; and no string of the payload is
  longer than 10000 characters.
\<close>

theorem long_text_truncated:
  "10000 < length t \<Longrightarrow>
     build_final_input c t i =
       Text (prompts c) # Text (take 10000 t) # (case i of None \<Rightarrow> [] | Some img \<Rightarrow> [Img img])
     \<and> (generate_calls (main_logic p c av s t i b) = []
        \<or> (\<exists>m. generate_calls (main_logic p c av s t i b) =
              [(m, Text (prompts c) # Text (take 10000 t)
                    # (case i of None \<Rightarrow> [] | Some img \<Rightarrow> [Img img]))]))
     \<and> (\<forall>x. Text x \<in> set (build_final_input c t i) \<longrightarrow> length x \<le> 10000)"
proof -
  assume long: "10000 < length t"
  then have ne: "t \<noteq> []" by auto
  have pl: "build_final_input c t i =
       Text (prompts c) # Text (take 10000 t) # (case i of None \<Rightarrow> [] | Some img \<Rightarrow> [Img img])"
    using ne by (simp add: build_final_input_eq)
  have calls: "generate_calls (main_logic p c av s t i b) = []
        \<or> (\<exists>m. generate_calls (main_logic p c av s t i b) = [(m, build_final_input c t i)])"
    by (simp add: main_logic_def processing_generate_calls split: selection.splits)
  have short: "\<forall>x. Text x \<in> set (build_final_input c t i) \<longrightarrow> length x \<le> 10000"
    using prompts_short [of c] by (auto simp: pl split: option.splits)
  show ?thesis using pl calls short by simp
qed

text \<open>A text of 10001 characters, sent to a provider that answers.\<close>

theorem long_text_truncated_witness:
  "10000 < length (replicate 10001 (CHR ''a''))
   \<and> generate_calls (main_logic working_provider Explain_Concept
        (snd (get_available_models working_provider)) ''gemini-pro''
        (replicate 10001 (CHR ''a'')) None True)
     = [(''models/gemini-pro'',
         [Text (prompts Explain_Concept), Text (replicate 10000 (CHR ''a''))])]"
proof -
  have h: "10000 < length (replicate 10001 (CHR ''a''))" by simp
  show ?thesis
    using long_text_truncated [OF h, where c = Explain_Concept and i = None
            and p = working_provider and av = "snd (get_available_models working_provider)"
            and s = "''gemini-pro''" and b = True]
    by (simp add: run_defs working_provider_def)
qed

subsection \<open>C3: one payload, one generation call\<close>

text \<open>
  Claim C3, as amended. For every accepted request for which a model was obtained, exactly
  one generation call is issued, with the payload made of the instruction of the action,
  the text cut to 10000 characters if there is a text, and the image if there is one.
  When the call returns a response whose text can be read, that text is rendered
  unchanged under the heading. For the text about photosynthesis and the action Explain
  Concept the payload is the explain instruction followed by that text.
\<close>

theorem accepted_request_one_call:
  fixes i :: "'img option"
  assumes "t \<noteq> [] \<or> i \<noteq> None"
    and "select_model p av s = (evs, Model m)"
  shows "generate_calls (main_logic p c av s t i True) = [(m, build_final_input c t i)]
    \<and> build_final_input c t i =
        Text (prompts c) # (if t = [] then [] else [Text (take 10000 t)])
          @ (case i of None \<Rightarrow> [] | Some img \<Rightarrow> [Img img])
    \<and> (generate_content p m (build_final_input c t i) = Inr (Inr answer) \<longrightarrow>
         main_logic p c av s t i True =
           evs @ [Generate_Call m (build_final_input c t i), St_Subheader ''Result'',
                  St_Markdown answer]
         \<and> rendered (main_logic p c av s t i True) = [answer])
    \<and> build_final_input Explain_Concept photosynthesis (None :: 'img option) =
        [Text (prompts Explain_Concept), Text photosynthesis]"
proof -
  have run: "main_logic p c av s t i True = processing p c av s t i"
    using assms(1) by (auto simp: main_logic_def)
  have calls: "generate_calls (main_logic p c av s t i True) = [(m, build_final_input c t i)]"
    using assms(2) by (simp add: run processing_generate_calls)
  have quiet: "rendered evs = []"
    using select_model_quiet [of p av s] assms(2) by simp
  have ok: "generate_content p m (build_final_input c t i) = Inr (Inr answer) \<longrightarrow>
         main_logic p c av s t i True =
           evs @ [Generate_Call m (build_final_input c t i), St_Subheader ''Result'',
                  St_Markdown answer]
         \<and> rendered (main_logic p c av s t i True) = [answer]"
    using assms(2) quiet by (simp add: run processing_def rendered_append)
  have ex: "build_final_input Explain_Concept photosynthesis (None :: 'img option) =
        [Text (prompts Explain_Concept), Text photosynthesis]"
    by (simp add: build_final_input_eq photosynthesis_def)
  show ?thesis using calls ok ex build_final_input_eq [of c t i] by blast
qed

text \<open>The scenario of the specification, on a provider that lists models and answers.\<close>

theorem accepted_request_one_call_witness:
  "select_model working_provider (snd (get_available_models working_provider)) ''gemini-pro''
     = ([Instantiate_Call ''models/gemini-pro''], Model ''models/gemini-pro'')
   \<and> generate_calls (main_logic working_provider Explain_Concept
        (snd (get_available_models working_provider)) ''gemini-pro'' photosynthesis None True)
     = [(''models/gemini-pro'',
         [Text ''Summarize this content into easy bullet points and explain complex terms simply.'',
          Text ''Photosynthesis converts light into chemical energy''])]
   \<and> rendered (main_logic working_provider Explain_Concept
        (snd (get_available_models working_provider)) ''gemini-pro'' photosynthesis None True)
     = [''* Plants store light as sugar.'']"
proof -
  let ?av = "snd (get_available_models working_provider)"
  have h1: "photosynthesis \<noteq> [] \<or> (None :: nat option) \<noteq> None"
    by (simp add: photosynthesis_def)
  have h2: "select_model working_provider ?av ''gemini-pro''
     = ([Instantiate_Call ''models/gemini-pro''], Model ''models/gemini-pro'')"
    by (simp add: run_defs working_provider_def)
  have g: "generate_content working_provider ''models/gemini-pro'' parts
     = Inr (Inr ''* Plants store light as sugar.'')" for parts
    by (simp add: working_provider_def)
  show ?thesis
    using accepted_request_one_call
            [OF h1 h2, where c = Explain_Concept and answer = "''* Plants store light as sugar.''"]
      g h2
    by (simp add: photosynthesis_def)
qed

text \<open>
  The claim as it was written speaks of every accepted request. With an empty catalog and
  no candidate that can be built, an accepted request issues no generation call and
  renders nothing.
\<close>

theorem one_call_counterexample:
  "photosynthesis \<noteq> []
   \<and> generate_calls (main_logic no_model_provider Explain_Concept [] ''gemini-pro''
        photosynthesis None True) = []
   \<and> rendered (main_logic no_model_provider Explain_Concept [] ''gemini-pro''
        photosynthesis None True) = []"
  by (simp add: run_defs no_model_provider_def photosynthesis_def)

subsection \<open>C4: the listing fails\<close>

text \<open>
  Claim C4. When the listing raises, the catalog fetcher prints the failure and returns
  the empty list. An accepted request then tries the fixed candidates in their order: all
  those whose constructor raises, up to and including the first one that is built, and no
  further one. The candidate that was built, and only it, is announced.
\<close>

theorem listing_failure_falls_back:
  assumes "list_models p = Inl e" and "button u"
    and "text_input u \<noteq> [] \<or> image_input u \<noteq> None"
  shows "get_available_models p =
           ([List_Models_Call, St_Error (''Error fetching models: '' @ e)], [])
    \<and> attempts (app p u) =
        takeWhile (\<lambda>n. isl (GenerativeModel p n)) model_names_to_try
        @ take 1 (dropWhile (\<lambda>n. isl (GenerativeModel p n)) model_names_to_try)
    \<and> announced (app p u) =
        map (\<lambda>n. ''Using model: '' @ n)
          (take 1 (dropWhile (\<lambda>n. isl (GenerativeModel p n)) model_names_to_try))"
proof -
  have cat: "get_available_models p =
           ([List_Models_Call, St_Error (''Error fetching models: '' @ e)], [])"
    using assms(1) by (simp add: get_available_models_def)
  have run: "main_logic p c [] s (text_input u) (image_input u) (button u) =
       processing p c [] s (text_input u) (image_input u)" for c s
    using assms(2,3) by (auto simp: main_logic_def)
  have a: "attempts (app p u) = attempts (fst (try_models p model_names_to_try))"
    by (simp add: app_def cat sidebar_def run processing_attempts select_model_fallback_attempts)
  have b: "announced (app p u) = announced (fst (try_models p model_names_to_try))"
    by (simp add: app_def cat sidebar_def run processing_announced select_model_fallback_attempts)
  show ?thesis
    using cat a b by (simp add: try_models_attempts try_models_announced)
qed

text \<open>The listing is down and the first candidate cannot be built; the second can.\<close>

theorem listing_failure_falls_back_witness:
  "list_models listing_down_provider = Inl ''503 unavailable''
   \<and> attempts (app listing_down_provider
        \<lparr>choice = Explain_Concept, picked = '''', text_input = photosynthesis,
         image_input = None, button = True\<rparr>)
     = [''gemini-1.5-flash'', ''gemini-1.5-pro'']
   \<and> announced (app listing_down_provider
        \<lparr>choice = Explain_Concept, picked = '''', text_input = photosynthesis,
         image_input = None, button = True\<rparr>)
     = [''Using model: gemini-1.5-pro'']"
proof -
  let ?u = "\<lparr>choice = Explain_Concept, picked = '''', text_input = photosynthesis,
         image_input = (None :: nat option), button = True\<rparr>"
  have h1: "list_models listing_down_provider = Inl ''503 unavailable''"
    by (simp add: listing_down_provider_def)
  have h2: "button ?u" by simp
  have h3: "text_input ?u \<noteq> [] \<or> image_input ?u \<noteq> None"
    by (simp add: photosynthesis_def)
  show ?thesis
    using listing_failure_falls_back [OF h1 h2 h3] h1
    by (simp add: model_names_to_try_def listing_down_provider_def)
qed

subsection \<open>C5: no candidate can be built\<close>

text \<open>
  Claim C5. With an empty catalog, when the constructor raises for every candidate of the
  fallback list, an accepted request tries each candidate once, prints the error about
  the missing model and stops: there is no generation call and nothing after the error.
\<close>

theorem no_candidate_no_generation:
  assumes "\<forall>n \<in> set model_names_to_try. isl (GenerativeModel p n)"
    and "t \<noteq> [] \<or> i \<noteq> None"
  shows "main_logic p c [] s t i True =
           map Instantiate_Call model_names_to_try
           @ [St_Error
               ''Could not find any working model. Please check your API key and permissions.'']
    \<and> generate_calls (main_logic p c [] s t i True) = []"
proof -
  have sel: "select_model p [] s =
     (map Instantiate_Call model_names_to_try
       @ [St_Error
            ''Could not find any working model. Please check your API key and permissions.''],
      Stopped)"
    using try_models_all_fail [OF assms(1)] by (simp add: select_model_def)
  have run: "main_logic p c [] s t i True = processing p c [] s t i"
    using assms(2) by (auto simp: main_logic_def)
  show ?thesis
    by (simp add: run processing_generate_calls sel) (simp add: processing_def sel)
qed

text \<open>A provider that refuses every model name.\<close>

theorem no_candidate_no_generation_witness:
  "main_logic no_model_provider Generate_Quiz [] ''gemini-pro'' photosynthesis (Some 7) True
     = [Instantiate_Call ''gemini-1.5-flash'', Instantiate_Call ''gemini-1.5-pro'',
        Instantiate_Call ''gemini-1.0-pro'', Instantiate_Call ''gemini-pro'',
        St_Error
          ''Could not find any working model. Please check your API key and permissions.'']
   \<and> generate_calls
        (main_logic no_model_provider Generate_Quiz [] ''gemini-pro'' photosynthesis (Some 7) True)
     = []"
proof -
  have h1: "\<forall>n \<in> set model_names_to_try. isl (GenerativeModel no_model_provider n)"
    by (simp add: no_model_provider_def)
  have h2: "photosynthesis \<noteq> [] \<or> Some (7::nat) \<noteq> None" by simp
  show ?thesis
    using no_candidate_no_generation [OF h1 h2, where c = Generate_Quiz and s = "''gemini-pro''"]
    by (simp add: model_names_to_try_def)
qed

subsection \<open>C6: the instruction of the quiz\<close>

text \<open>
  Claim C6. With the action Generate Quiz the payload starts with the quiz instruction,
  whatever the text and the image are, and a generation call of such a request carries a
  payload that starts with it.
\<close>

theorem quiz_instruction_first:
  "(\<exists>rest. build_final_input Generate_Quiz t i =
      Text ''Create 5 multiple choice questions with answers based on this content.'' # rest)
   \<and> (generate_calls (main_logic p Generate_Quiz av s t i b) = []
      \<or> (\<exists>m rest. generate_calls (main_logic p Generate_Quiz av s t i b) =
           [(m, Text ''Create 5 multiple choice questions with answers based on this content.''
                # rest)]))"
proof -
  have pl: "\<exists>rest. build_final_input Generate_Quiz t i =
      Text ''Create 5 multiple choice questions with answers based on this content.'' # rest"
    by (simp add: build_final_input_eq)
  have calls: "generate_calls (main_logic p Generate_Quiz av s t i b) = []
      \<or> (\<exists>m. generate_calls (main_logic p Generate_Quiz av s t i b) =
            [(m, build_final_input Generate_Quiz t i)])"
    by (simp add: main_logic_def processing_generate_calls split: selection.splits)
  show ?thesis using pl calls by metis
qed

subsection \<open>C7: the catalog\<close>

text \<open>
  Claim C7. When the listing succeeds, the catalog fetcher returns, in the order of the
  listing, one entry for every model whose supported generation methods contain
  generateContent, and no other entry. The full name of the entry is the name of the
  model and its display name is that name with every occurrence of models/ removed.
\<close>

theorem catalog_filters_listing:
  "list_models p = Inr models \<Longrightarrow>
     get_available_models p =
       ([List_Models_Call],
        map (\<lambda>m. \<lparr>full_name = name m,
                   display_name = str_replace ''models/'' '''' (name m)\<rparr>)
          (filter (\<lambda>m. ''generateContent'' \<in> set (supported_generation_methods m)) models))"
  by (simp add: get_available_models_def collect_valid_acc)

text \<open>A listing of three models, of which the first only embeds.\<close>

theorem catalog_filters_listing_witness:
  "list_models working_provider = Inr sample_listing
   \<and> get_available_models working_provider =
       ([List_Models_Call],
        [\<lparr>full_name = ''models/gemini-pro'', display_name = ''gemini-pro''\<rparr>,
         \<lparr>full_name = ''gemini-pro'', display_name = ''gemini-pro''\<rparr>])"
proof -
  have h: "list_models working_provider = Inr sample_listing"
    by (simp add: working_provider_def)
  show ?thesis
    using catalog_filters_listing [OF h] h
    by (simp add: sample_listing_def str_replace.simps)
qed

subsection \<open>C8: exceptions that reach the handler\<close>

text \<open>
  Claim C8, as amended. For every accepted request, an exception raised when the model
  selected from a catalog that is not empty is instantiated, or raised by the generation
  call, ends the request with the notice that is the word Error, a colon, a blank and the
  text of the exception, followed by the fixed hint to select a different model. After
  such an exception no heading and no result is rendered, and when the generation call
  raised, this notice is the only error of the request.
\<close>

theorem exception_reported:
  assumes "t \<noteq> [] \<or> i \<noteq> None"
  shows "(av \<noteq> [] \<and> next_full_name av s = Inr selected_full
            \<and> GenerativeModel p selected_full = Inl e \<longrightarrow>
          main_logic p c av s t i True =
            [Instantiate_Call selected_full, St_Error (''Error: '' @ e),
             St_Info ''Try selecting a different model from the sidebar dropdown.''])
    \<and> (select_model p av s = (evs, Model m)
            \<and> generate_content p m (build_final_input c t i) = Inl e \<longrightarrow>
          main_logic p c av s t i True =
            evs @ [Generate_Call m (build_final_input c t i), St_Error (''Error: '' @ e),
                   St_Info ''Try selecting a different model from the sidebar dropdown.'']
          \<and> errors (main_logic p c av s t i True) = [''Error: '' @ e]
          \<and> rendered (main_logic p c av s t i True) = []
          \<and> headings (main_logic p c av s t i True) = [])"
proof -
  have run: "main_logic p c av s t i True = processing p c av s t i"
    using assms by (auto simp: main_logic_def)
  have inst: "main_logic p c av s t i True =
            [Instantiate_Call selected_full, St_Error (''Error: '' @ e),
             St_Info ''Try selecting a different model from the sidebar dropdown.'']"
    if "av \<noteq> []" "next_full_name av s = Inr selected_full"
       "GenerativeModel p selected_full = Inl e"
    using that by (simp add: run processing_def select_model_def on_exception_def)
  have gen: "main_logic p c av s t i True =
            evs @ [Generate_Call m (build_final_input c t i), St_Error (''Error: '' @ e),
                   St_Info ''Try selecting a different model from the sidebar dropdown.'']
          \<and> errors (main_logic p c av s t i True) = [''Error: '' @ e]
          \<and> rendered (main_logic p c av s t i True) = []
          \<and> headings (main_logic p c av s t i True) = []"
    if sel: "select_model p av s = (evs, Model m)"
      and raise: "generate_content p m (build_final_input c t i) = Inl e"
  proof -
    have q: "rendered evs = [] \<and> headings evs = []"
      using select_model_quiet [of p av s] sel by simp
    have ne: "errors evs = []" using select_model_no_error [OF sel] .
    have tr: "main_logic p c av s t i True =
            evs @ [Generate_Call m (build_final_input c t i), St_Error (''Error: '' @ e),
                   St_Info ''Try selecting a different model from the sidebar dropdown.'']"
      using sel raise by (simp add: run processing_def on_exception_def)
    show ?thesis using q ne by (simp add: tr events_append)
  qed
  show ?thesis using inst gen by blast
qed

text \<open>
  A provider whose constructor refuses the selected model, and one whose generation call
  runs out of quota.
\<close>

theorem exception_reported_witness:
  "main_logic refusing_provider Explain_Concept
       (snd (get_available_models refusing_provider)) ''gemini-pro'' photosynthesis None True
     = [Instantiate_Call ''models/gemini-pro'', St_Error ''Error: 403 permission denied'',
        St_Info ''Try selecting a different model from the sidebar dropdown.'']
   \<and> main_logic quota_provider Generate_Quiz
       (snd (get_available_models quota_provider)) ''gemini-pro'' photosynthesis None True
     = [Instantiate_Call ''models/gemini-pro'',
        Generate_Call ''models/gemini-pro'' [Text (prompts Generate_Quiz), Text photosynthesis],
        St_Error ''Error: 429 quota exceeded'',
        St_Info ''Try selecting a different model from the sidebar dropdown.'']
   \<and> rendered (main_logic quota_provider Generate_Quiz
       (snd (get_available_models quota_provider)) ''gemini-pro'' photosynthesis None True) = []"
proof -
  let ?av1 = "snd (get_available_models refusing_provider)"
  let ?av2 = "snd (get_available_models quota_provider)"
  have h: "photosynthesis \<noteq> [] \<or> (None :: nat option) \<noteq> None"
    by (simp add: photosynthesis_def)
  have a1: "?av1 \<noteq> []" and a2: "next_full_name ?av1 ''gemini-pro'' = Inr ''models/gemini-pro''"
    and a3: "GenerativeModel refusing_provider ''models/gemini-pro'' = Inl ''403 permission denied''"
    by (simp_all add: run_defs refusing_provider_def)
  have b1: "select_model quota_provider ?av2 ''gemini-pro''
      = ([Instantiate_Call ''models/gemini-pro''], Model ''models/gemini-pro'')"
    by (simp add: run_defs quota_provider_def)
  have b2: "generate_content quota_provider ''models/gemini-pro''
       (build_final_input Generate_Quiz photosynthesis None) = Inl ''429 quota exceeded''"
    by (simp add: quota_provider_def)
  have pl: "build_final_input Generate_Quiz photosynthesis (None :: nat option)
      = [Text (prompts Generate_Quiz), Text photosynthesis]"
    by (simp add: build_final_input_eq photosynthesis_def)
  show ?thesis
    using exception_reported [OF h, where av = ?av1 and s = "''gemini-pro''"
            and selected_full = "''models/gemini-pro''" and p = refusing_provider
            and e = "''403 permission denied''" and c = Explain_Concept]
          exception_reported [OF h, where av = ?av2 and s = "''gemini-pro''"
            and p = quota_provider and e = "''429 quota exceeded''"
            and evs = "[Instantiate_Call ''models/gemini-pro'']"
            and m = "''models/gemini-pro''" and c = Generate_Quiz]
          a1 a2 a3 b1 b2
    by (simp add: pl)
qed

text \<open>
  The claim as it was written speaks of any exception of a model instantiation. In the
  fallback loop the exception of the first candidate is dropped: the second candidate is
  built, no error is printed and the answer is rendered.
\<close>

theorem swallowed_exception_counterexample:
  "GenerativeModel listing_down_provider ''gemini-1.5-flash'' = Inl ''404 model not found''
   \<and> main_logic listing_down_provider Explain_Concept [] ''gemini-pro'' photosynthesis None True
     = [Instantiate_Call ''gemini-1.5-flash'', Instantiate_Call ''gemini-1.5-pro'',
        Sidebar_Success ''Using model: gemini-1.5-pro'',
        Generate_Call ''gemini-1.5-pro''
          [Text (prompts Explain_Concept), Text photosynthesis],
        St_Subheader ''Result'', St_Markdown ''* Plants store light as sugar.'']"
  by (simp add: run_defs listing_down_provider_def photosynthesis_def)

subsection \<open>C9: the model selected from the catalog\<close>

text \<open>
  Claim C9. When the catalog is not empty and the selection is one of its display names,
  an accepted request instantiates exactly one model: the full name of the first entry
  of the catalog whose display name is the selection. Choosing the model does not run the
  fallback loop, so no candidate is announced.
\<close>

theorem catalog_selection_instantiated:
  assumes "av \<noteq> []" and "s \<in> display_name ` set av" and "t \<noteq> [] \<or> i \<noteq> None"
  shows "\<exists>d. find (\<lambda>d. display_name d = s) av = Some d
    \<and> select_model p av s =
        (case GenerativeModel p (full_name d) of
           Inl e \<Rightarrow> ([Instantiate_Call (full_name d)], Raised e)
         | Inr m \<Rightarrow> ([Instantiate_Call (full_name d)], Model m))
    \<and> attempts (main_logic p c av s t i True) = [full_name d]
    \<and> announced (main_logic p c av s t i True) = []"
proof -
  from assms(2) obtain d where d: "find (\<lambda>d. display_name d = s) av = Some d"
    by (cases "find (\<lambda>d. display_name d = s) av") (auto simp: find_None_iff)
  have nx: "next_full_name av s = Inr (full_name d)"
    by (simp add: next_full_name_find d)
  have sel: "select_model p av s =
        (case GenerativeModel p (full_name d) of
           Inl e \<Rightarrow> ([Instantiate_Call (full_name d)], Raised e)
         | Inr m \<Rightarrow> ([Instantiate_Call (full_name d)], Model m))"
    using assms(1) by (simp add: select_model_def nx)
  have run: "main_logic p c av s t i True = processing p c av s t i"
    using assms(3) by (auto simp: main_logic_def)
  have a: "attempts (main_logic p c av s t i True) = [full_name d]"
    by (simp add: run processing_attempts sel split: sum.splits)
  have b: "announced (main_logic p c av s t i True) = []"
    by (simp add: run processing_announced sel split: sum.splits)
  show ?thesis using d sel a b by blast
qed

text \<open>
  Two entries of the sample catalog have the display name gemini-pro; the first one is
  instantiated, although the second one bears the name of a fallback candidate.
\<close>

theorem catalog_selection_instantiated_witness:
  "snd (get_available_models working_provider) =
      [\<lparr>full_name = ''models/gemini-pro'', display_name = ''gemini-pro''\<rparr>,
       \<lparr>full_name = ''gemini-pro'', display_name = ''gemini-pro''\<rparr>]
   \<and> attempts (main_logic working_provider Make_Flashcards
        (snd (get_available_models working_provider)) ''gemini-pro'' photosynthesis None True)
     = [''models/gemini-pro'']
   \<and> announced (main_logic working_provider Make_Flashcards
        (snd (get_available_models working_provider)) ''gemini-pro'' photosynthesis None True)
     = []"
proof -
  let ?av = "snd (get_available_models working_provider)"
  have av: "?av =
      [\<lparr>full_name = ''models/gemini-pro'', display_name = ''gemini-pro''\<rparr>,
       \<lparr>full_name = ''gemini-pro'', display_name = ''gemini-pro''\<rparr>]"
    by (simp add: run_defs working_provider_def)
  have h1: "?av \<noteq> []" and h2: "''gemini-pro'' \<in> display_name ` set ?av"
    by (simp_all add: av)
  have h3: "photosynthesis \<noteq> [] \<or> (None :: nat option) \<noteq> None"
    by (simp add: photosynthesis_def)
  show ?thesis
    using catalog_selection_instantiated
            [OF h1 h2 h3, where p = working_provider and c = Make_Flashcards] av
    by auto
qed

subsection \<open>C10: an image without text\<close>

text \<open>
  Claim C10. A request with an empty text and an image is handled: the error about the
  missing input is not printed, the payload is the instruction followed by the image,
  with no text part between them, and a generation call of the request carries exactly
  this payload.
\<close>

theorem image_only_accepted:
  "main_logic p c av s [] (Some img) True = processing p c av s [] (Some img)
   \<and> build_final_input c [] (Some img) = [Text (prompts c), Img img]
   \<and> ''Please provide text or an image first.''
        \<notin> set (errors (main_logic p c av s [] (Some img) True))
   \<and> (generate_calls (main_logic p c av s [] (Some img) True) = []
      \<or> (\<exists>m. generate_calls (main_logic p c av s [] (Some img) True) =
            [(m, [Text (prompts c), Img img])]))"
proof -
  have run: "main_logic p c av s [] (Some img) True = processing p c av s [] (Some img)"
    by (simp add: main_logic_def)
  have pl: "build_final_input c [] (Some img) = [Text (prompts c), Img img]"
    by (simp add: build_final_input_eq)
  have calls: "generate_calls (processing p c av s [] (Some img)) = []
      \<or> (\<exists>m. generate_calls (processing p c av s [] (Some img)) =
            [(m, [Text (prompts c), Img img])])"
    by (simp add: processing_generate_calls pl split: selection.splits)
  show ?thesis
    using run pl calls processing_not_rejected [of p c av s "[]" "Some img"] by simp
qed

end
